theory Spec2Isabelle
  imports Complex_Main "HOL-Library.Sublist"
begin

section \<open>Strings\<close>

text \<open>
  Strings are byte lists in UTF-8. The bullet of the batch summary, U+2022, is the three
  bytes E2 80 A2; a line feed is the byte 0A and a double quote the byte 22.
\<close>

definition bullet :: string where
  "bullet = [CHR 0xE2, CHR 0x80, CHR 0xA2]"

definition newline :: string where
  "newline = [CHR 0x0A]"

definition dquote :: string where
  "dquote = [CHR 0x22]"

text \<open>\<^verbatim>\<open>Array.prototype.join\<close>: the elements with the separator between neighbours.\<close>

fun join :: "string \<Rightarrow> string list \<Rightarrow> string" where
  "join sep [] = []"
| "join sep [x] = x"
| "join sep (x # y # ys) = x @ sep @ join sep (y # ys)"

section \<open>The summarization functions (Deno edge functions)\<close>

subsection \<open>Requests, responses and the completion endpoint\<close>

text \<open>
  The body that \<^verbatim>\<open>JSON.stringify\<close> builds for the completion endpoint. The two numeric
  sampling parameters are the decimal literals of the source, kept as rationals.
\<close>

record completion_request =
  authorization :: string
  model :: string
  messages :: "(string \<times> string) list"
  temperature :: rat
  top_p :: rat
  max_tokens :: nat

text \<open>
  A value that \<^verbatim>\<open>JSON.parse\<close> gives. A number is kept as the text that JavaScript
  prints for it; an object is the list of its members in the order of the text, of
  which the last one with a name is the property of that name.
\<close>

datatype json =
    JNull
  | JBool bool
  | JNum string
  | JString string
  | JArray "json list"
  | JObject "(string \<times> json) list"

text \<open>A JavaScript value read from such a value: \<^verbatim>\<open>undefined\<close>, or a value of JSON.\<close>

datatype js_value = Undefined | Val json

definition own_property :: "(string \<times> json) list \<Rightarrow> string \<Rightarrow> js_value" where
  "own_property kvs p = (case map_of (rev kvs) p of None \<Rightarrow> Undefined | Some v \<Rightarrow> Val v)"

text \<open>
  The read \<^verbatim>\<open>v.p\<close> of a value that is not \<^verbatim>\<open>null\<close>, for the names \<^verbatim>\<open>choices\<close>,
  \<^verbatim>\<open>message\<close> and \<^verbatim>\<open>content\<close> that the handlers read: only an object can have a
  property of such a name.
\<close>

fun named_property :: "string \<Rightarrow> json \<Rightarrow> js_value" where
  "named_property p (JObject kvs) = own_property kvs p"
| "named_property p v = Undefined"

text \<open>
  The first character of a text: its first byte with the continuation bytes (10xxxxxx)
  that follow. (For a character outside the Basic Multilingual Plane JavaScript gives
  its first surrogate alone, which no UTF-8 text holds; the model keeps the character.)
\<close>

definition first_char :: "string \<Rightarrow> string" where
  "first_char s =
     take 1 s @ takeWhile (\<lambda>c. 128 \<le> (of_char c :: nat) \<and> (of_char c :: nat) < 192) (drop 1 s)"

text \<open>
  The read \<^verbatim>\<open>v[0]\<close> of a value that is not \<^verbatim>\<open>null\<close>: the first element of an array, the
  property \<^verbatim>\<open>0\<close> of an object, the first character of a text, and \<^verbatim>\<open>undefined\<close> where
  there is none and for a number or a boolean.
\<close>

fun index0 :: "json \<Rightarrow> js_value" where
  "index0 (JArray xs) = (case xs of [] \<Rightarrow> Undefined | x # rest \<Rightarrow> Val x)"
| "index0 (JObject kvs) = own_property kvs ''0''"
| "index0 (JString s) = (if s = [] then Undefined else Val (JString (first_char s)))"
| "index0 v = Undefined"

text \<open>
  A property read raises a TypeError on \<^verbatim>\<open>undefined\<close> and on \<^verbatim>\<open>null\<close>. The wording of its
  message is the runtime's: \<open>te\<close> gives it from the value read (\<open>True\<close> for \<^verbatim>\<open>null\<close>,
  \<open>False\<close> for \<^verbatim>\<open>undefined\<close>) and the name of the property.
\<close>

fun read_property ::
  "(bool \<Rightarrow> string \<Rightarrow> string) \<Rightarrow> string \<Rightarrow> (json \<Rightarrow> js_value) \<Rightarrow> js_value \<Rightarrow> string + js_value"
where
  "read_property te p get Undefined = Inl (te False p)"
| "read_property te p get (Val JNull) = Inl (te True p)"
| "read_property te p get (Val v) = Inr (get v)"

text \<open>\<^verbatim>\<open>data.choices[0].message.content\<close>: the message of the TypeError, or the value.\<close>

definition completion_content :: "(bool \<Rightarrow> string \<Rightarrow> string) \<Rightarrow> json \<Rightarrow> string + js_value" where
  "completion_content te data =
     (case read_property te ''choices'' (named_property ''choices'') (Val data) of
        Inl m \<Rightarrow> Inl m
      | Inr choices \<Rightarrow>
          (case read_property te ''0'' index0 choices of
             Inl m \<Rightarrow> Inl m
           | Inr choice \<Rightarrow>
               (case read_property te ''message'' (named_property ''message'') choice of
                  Inl m \<Rightarrow> Inl m
                | Inr message \<Rightarrow> read_property te ''content'' (named_property ''content'') message)))"

text \<open>
  The text that a template literal makes of a value: a text is itself, an absent value is
  \<^verbatim>\<open>undefined\<close>, an array is its elements' texts with commas between (nothing for
  \<^verbatim>\<open>null\<close>), an object is \<^verbatim>\<open>[object Object]\<close>.
\<close>

fun json_text :: "json \<Rightarrow> string"
  and element_text :: "json \<Rightarrow> string"
where
  "json_text JNull = ''null''"
| "json_text (JBool b) = (if b then ''true'' else ''false'')"
| "json_text (JNum n) = n"
| "json_text (JString s) = s"
| "json_text (JArray xs) = join '','' (map element_text xs)"
| "json_text (JObject kvs) = ''[object Object]''"
| "element_text JNull = []"
| "element_text (JBool b) = json_text (JBool b)"
| "element_text (JNum n) = json_text (JNum n)"
| "element_text (JString s) = json_text (JString s)"
| "element_text (JArray xs) = json_text (JArray xs)"
| "element_text (JObject kvs) = json_text (JObject kvs)"

fun to_text :: "js_value \<Rightarrow> string" where
  "to_text Undefined = ''undefined''"
| "to_text (Val v) = json_text v"

text \<open>\<^verbatim>\<open>await response.json()\<close>: the parse rejects, with its message, or gives a value.\<close>

datatype completion_body = Unparseable string | Parsed json

text \<open>
  \<^verbatim>\<open>await fetch(...)\<close> either rejects (network failure, timeout), with the message of the
  error, or resolves to a response with its \<^verbatim>\<open>ok\<close> flag, its \<^verbatim>\<open>statusText\<close> and its body.
\<close>

datatype fetch_result = FetchRejected string | FetchResponse bool string completion_body

text \<open>
  The environment of a handler: the value of \<^verbatim>\<open>Deno.env.get('NVIDIA_API_KEY')\<close> (absent
  when the variable is not set), the endpoint, which answers the request number \<open>i\<close>
  (counted from 0 within one invocation of the handler), and the runtime's wording of
  a TypeError.
\<close>

record deno_env =
  nvidiApiKey :: "string option"
  fetch :: "nat \<Rightarrow> completion_request \<Rightarrow> fetch_result"
  type_error :: "bool \<Rightarrow> string \<Rightarrow> string"

text \<open>
  The test \<^verbatim>\<open>!nvidiApiKey\<close> holds of \<^verbatim>\<open>undefined\<close> and of the empty string; past it the
  key is a string that is not empty.
\<close>

fun configured_key :: "string option \<Rightarrow> string option" where
  "configured_key None = None"
| "configured_key (Some k) = (if k = [] then None else Some k)"

text \<open>
  \<^verbatim>\<open>await req.json()\<close> with the destructuring of the parsed value: it raises (no JSON,
  or \<^verbatim>\<open>null\<close>), or binds the field.
\<close>

datatype 'a json_result = JsonRejected string | JsonValue 'a

record 'a http_request =
  "method" :: string
  json :: "'a json_result"

text \<open>
  The \<^verbatim>\<open>notes\<close> field of the batch request: a value that \<^verbatim>\<open>for ... of\<close> cannot iterate
  (with the message of the TypeError), or the list of the items' titles and contents.
\<close>

datatype notes_field = NotIterable string | NotesList "(string \<times> string) list"

text \<open>
  The bodies of the handlers' responses: none, \<^verbatim>\<open>{ summary }\<close> with a text,
  \<^verbatim>\<open>{ error }\<close> with a message, and \<^verbatim>\<open>{ summary }\<close> with a value that is no text, which
  \<^verbatim>\<open>JSON.stringify\<close> writes as \<^verbatim>\<open>{}\<close> when the value is \<^verbatim>\<open>undefined\<close>.
\<close>

datatype response_body = NoBody | SummaryJson string | ErrorJson string | SummaryValue js_value

text \<open>Every response carries the CORS headers; they are not part of the model.\<close>

record http_response =
  status :: nat
  body :: response_body

definition preflight_response :: http_response where
  "preflight_response = \<lparr>status = 200, body = NoBody\<rparr>"

definition summary_response :: "string \<Rightarrow> http_response" where
  "summary_response s = \<lparr>status = 200, body = SummaryJson s\<rparr>"

definition error_response :: "string \<Rightarrow> http_response" where
  "error_response m = \<lparr>status = 500, body = ErrorJson m\<rparr>"

text \<open>The response \<^verbatim>\<open>{ summary }\<close> of the single-note function, whose summary is any value.\<close>

fun summary_value_response :: "js_value \<Rightarrow> http_response" where
  "summary_value_response (Val (JString s)) = summary_response s"
| "summary_value_response v = \<lparr>status = 200, body = SummaryValue v\<rparr>"

subsection \<open>summarize-notes: the batch function\<close>

definition batch_system_prompt :: string where
  "batch_system_prompt = ''You are a helpful assistant that creates very brief summaries. Provide a concise 1-2 sentence summary in plain text without any formatting or special characters.''"

definition batch_user_prompt :: "string \<times> string \<Rightarrow> string" where
  "batch_user_prompt note =
     ''Please summarize the following text in 1-2 sentences (not bullet points): ''
       @ dquote @ fst note @ dquote @ '':'' @ newline @ newline @ snd note"

definition batch_request :: "string \<Rightarrow> string \<times> string \<Rightarrow> completion_request" where
  "batch_request key note =
     \<lparr>authorization = ''Bearer '' @ key,
      model = ''nvidia/llama-3.1-nemotron-70b-instruct'',
      messages = [(''system'', batch_system_prompt), (''user'', batch_user_prompt note)],
      temperature = 0.2,
      top_p = 0.7,
      max_tokens = 100\<rparr>"

definition fallback :: string where
  "fallback = ''Unable to summarize this note.''"

definition bullet_line :: "string \<Rightarrow> string \<Rightarrow> string" where
  "bullet_line t s = bullet @ '' '' @ t @ '': '' @ s"

text \<open>
  The \<^verbatim>\<open>for (const note of notes)\<close> loop. \<open>i\<close> is the number of requests already sent,
  \<open>summaries\<close> the array built so far and \<open>sent\<close> the requests sent so far. An exception
  (a rejected fetch, a body that does not parse, a TypeError of the path to the content)
  leaves the loop with its message, \<open>Inl\<close>; the end of the list leaves it with the
  array, \<open>Inr\<close>.
\<close>

fun summarize_loop ::
  "deno_env \<Rightarrow> string \<Rightarrow> nat \<Rightarrow> (string \<times> string) list \<Rightarrow>
   string list \<Rightarrow> completion_request list \<Rightarrow> (string + string list) \<times> completion_request list"
where
  "summarize_loop env key i [] summaries sent = (Inr summaries, sent)"
| "summarize_loop env key i (note # rest) summaries sent =
     (case fetch env i (batch_request key note) of
        FetchRejected m \<Rightarrow> (Inl m, sent @ [batch_request key note])
      | FetchResponse ok st b \<Rightarrow>
          if ok then
            (case b of
               Unparseable m \<Rightarrow> (Inl m, sent @ [batch_request key note])
             | Parsed data \<Rightarrow>
                 (case completion_content (type_error env) data of
                    Inl m \<Rightarrow> (Inl m, sent @ [batch_request key note])
                  | Inr summary \<Rightarrow>
                      summarize_loop env key (Suc i) rest
                        (summaries @ [bullet_line (fst note) (to_text summary)])
                        (sent @ [batch_request key note])))
          else
            summarize_loop env key (Suc i) rest
              (summaries @ [bullet_line (fst note) fallback]) (sent @ [batch_request key note]))"

text \<open>
  The handler: the response and the requests it sent to the completion endpoint. The
  \<^verbatim>\<open>catch\<close> block turns every exception of the \<^verbatim>\<open>try\<close> block into a 500 response with
  the message.
\<close>

definition summarize_notes ::
  "deno_env \<Rightarrow> notes_field http_request \<Rightarrow> http_response \<times> completion_request list"
where
  "summarize_notes env req =
     (if method req = ''OPTIONS'' then (preflight_response, [])
      else
        (case json req of
           JsonRejected m \<Rightarrow> (error_response m, [])
         | JsonValue notes \<Rightarrow>
             (case configured_key (nvidiApiKey env) of
                None \<Rightarrow> (error_response ''NVIDIA API key not configured'', [])
              | Some key \<Rightarrow>
                  (case notes of
                     NotIterable m \<Rightarrow> (error_response m, [])
                   | NotesList ns \<Rightarrow>
                       (case summarize_loop env key 0 ns [] [] of
                          (Inl m, sent) \<Rightarrow> (error_response m, sent)
                        | (Inr summaries, sent) \<Rightarrow>
                            (summary_response (join (newline @ newline) summaries), sent))))))"

subsection \<open>summarize-note: the single-note function\<close>

definition single_system_prompt :: string where
  "single_system_prompt = ''You are a helpful assistant that creates clear, concise summaries. Provide a summary in plain text format with bullet points for key information. Use simple language and avoid any formatting like bold, italics, or markdown. Focus on capturing the main points in 2-3 sentences followed by bullet points for details.''"

definition single_user_prompt :: "string \<Rightarrow> string" where
  "single_user_prompt content =
     ''Please summarize the following text in 1-2 sentences (not bullet points):''
       @ newline @ newline @ content"

definition single_request :: "string \<Rightarrow> string \<Rightarrow> completion_request" where
  "single_request key content =
     \<lparr>authorization = ''Bearer '' @ key,
      model = ''nvidia/llama-3.1-nemotron-70b-instruct'',
      messages = [(''system'', single_system_prompt), (''user'', single_user_prompt content)],
      temperature = 0.2,
      top_p = 0.7,
      max_tokens = 200\<rparr>"

definition summarize_note ::
  "deno_env \<Rightarrow> string http_request \<Rightarrow> http_response \<times> completion_request list"
where
  "summarize_note env req =
     (if method req = ''OPTIONS'' then (preflight_response, [])
      else
        (case json req of
           JsonRejected m \<Rightarrow> (error_response m, [])
         | JsonValue content \<Rightarrow>
             (case configured_key (nvidiApiKey env) of
                None \<Rightarrow> (error_response ''NVIDIA API key not configured'', [])
              | Some key \<Rightarrow>
                  (case fetch env 0 (single_request key content) of
                     FetchRejected m \<Rightarrow> (error_response m, [single_request key content])
                   | FetchResponse ok st b \<Rightarrow>
                       if \<not> ok then
                         (error_response (''NVIDIA API error: '' @ st),
                          [single_request key content])
                       else
                         (case b of
                            Unparseable m \<Rightarrow> (error_response m, [single_request key content])
                          | Parsed data \<Rightarrow>
                              (case completion_content (type_error env) data of
                                 Inl m \<Rightarrow> (error_response m, [single_request key content])
                               | Inr summary \<Rightarrow>
                                   (summary_value_response summary,
                                    [single_request key content])))))))"

section \<open>The note collection (the useNotes hook)\<close>

subsection \<open>Data and gateways\<close>

record Note =
  note_id :: string
  title :: string
  content :: string
  summary :: "string option"
  file_name :: "string option"
  created_at :: string
  updated_at :: string
  user_id :: string

text \<open>The current user of \<^verbatim>\<open>useAuth\<close>, of which the hook reads the id.\<close>

datatype user = User (uid: string)

text \<open>The state of the hook: the two \<^verbatim>\<open>useState\<close> cells.\<close>

record hook_state =
  "notes" :: "Note list"
  loading :: bool

definition initial_state :: hook_state where
  "initial_state = \<lparr>notes = [], loading = True\<rparr>"

text \<open>
  A call of the Supabase client: the awaited promise rejects (the \<^verbatim>\<open>catch\<close> block runs),
  or it resolves to \<^verbatim>\<open>{ data, error }\<close> with an error, or with the data and no error.
\<close>

datatype 'a store_result = Thrown | StoreError string | StoreData 'a

text \<open>The two field sets that the hook passes to \<^verbatim>\<open>update\<close>, each with \<^verbatim>\<open>updated_at\<close> last.\<close>

datatype patch = TitleContentPatch string string string | SummaryPatch "string option" string

datatype invoke_body = ContentBody string | NotesBody "(string \<times> string) list"

text \<open>
  The \<^verbatim>\<open>data\<close> of an invoked function, read as \<^verbatim>\<open>data.summary\<close>: \<^verbatim>\<open>null\<close> (the read
  raises a TypeError), or an object with its \<^verbatim>\<open>summary\<close> field, absent or a text.
\<close>

datatype invoke_data = NullData | Data "string option"

datatype gateway_call =
    Select
  | Insert string string "string option" string
  | Update string patch
  | Delete string
  | Invoke string invoke_body

text \<open>
  The remote side: what the store and the functions answer to each call, and the clock
  \<^verbatim>\<open>new Date().toISOString()\<close>.
\<close>

record gateways =
  select_notes :: "Note list option store_result"
  insert_note :: "string \<Rightarrow> string \<Rightarrow> string option \<Rightarrow> string \<Rightarrow> Note store_result"
  update_note :: "string \<Rightarrow> patch \<Rightarrow> Note store_result"
  delete_note :: "string \<Rightarrow> unit store_result"
  invoke :: "string \<Rightarrow> invoke_body \<Rightarrow> invoke_data store_result"
  now :: string

datatype toast = ToastError string | ToastSuccess string

text \<open>
  What one operation of the hook does: the value it returns, the state after it, the
  gateway calls it made and the toasts it showed, both in order.
\<close>

record 'r result =
  returned :: 'r
  after :: hook_state
  calls :: "gateway_call list"
  toasts :: "toast list"

subsection \<open>Operations\<close>

text \<open>
  An operation is taken alone, from the state at its call to the state once it has
  resolved: the \<^verbatim>\<open>notes\<close> that its closure reads and the \<^verbatim>\<open>prev\<close> of its functional
  update are both the collection of that state. A gateway call that the source awaits
  inside \<^verbatim>\<open>try\<close> has three branches: \<open>Thrown\<close> is the \<^verbatim>\<open>catch\<close> block.
\<close>

text \<open>\<^verbatim>\<open>prev.map(note => note.id === id ? data : note)\<close>\<close>

definition replace_by_id :: "string \<Rightarrow> Note \<Rightarrow> Note list \<Rightarrow> Note list" where
  "replace_by_id i d prev = map (\<lambda>n. if note_id n = i then d else n) prev"

text \<open>\<^verbatim>\<open>prev.filter(note => note.id !== id)\<close>\<close>

definition remove_by_id :: "string \<Rightarrow> Note list \<Rightarrow> Note list" where
  "remove_by_id i prev = filter (\<lambda>n. note_id n \<noteq> i) prev"

definition fetchNotes :: "gateways \<Rightarrow> user option \<Rightarrow> hook_state \<Rightarrow> unit result" where
  "fetchNotes g usr s =
     (case usr of
        None \<Rightarrow> \<lparr>returned = (), after = s, calls = [], toasts = []\<rparr>
      | Some u \<Rightarrow>
          (case select_notes g of
             Thrown \<Rightarrow>
               \<lparr>returned = (), after = s\<lparr>loading := False\<rparr>, calls = [Select],
                toasts = [ToastError ''Failed to fetch notes'']\<rparr>
           | StoreError e \<Rightarrow>
               \<lparr>returned = (), after = s\<lparr>loading := False\<rparr>, calls = [Select],
                toasts = [ToastError ''Failed to fetch notes'']\<rparr>
           | StoreData d \<Rightarrow>
               \<lparr>returned = (),
                after = s\<lparr>notes := (case d of None \<Rightarrow> [] | Some ns \<Rightarrow> ns), loading := False\<rparr>,
                calls = [Select], toasts = []\<rparr>))"

definition createNote ::
  "gateways \<Rightarrow> user option \<Rightarrow> string \<Rightarrow> string \<Rightarrow> string option \<Rightarrow> hook_state \<Rightarrow> Note option result"
where
  "createNote g usr t c fileName s =
     (case usr of
        None \<Rightarrow> \<lparr>returned = None, after = s, calls = [], toasts = []\<rparr>
      | Some u \<Rightarrow>
          (case insert_note g t c fileName (uid u) of
             Thrown \<Rightarrow>
               \<lparr>returned = None, after = s, calls = [Insert t c fileName (uid u)],
                toasts = [ToastError ''Failed to create note'']\<rparr>
           | StoreError e \<Rightarrow>
               \<lparr>returned = None, after = s, calls = [Insert t c fileName (uid u)],
                toasts = [ToastError ''Failed to create note'']\<rparr>
           | StoreData d \<Rightarrow>
               \<lparr>returned = Some d, after = s\<lparr>notes := d # notes s\<rparr>,
                calls = [Insert t c fileName (uid u)],
                toasts = [ToastSuccess ''Note created successfully!'']\<rparr>))"

definition updateNote ::
  "gateways \<Rightarrow> user option \<Rightarrow> string \<Rightarrow> string \<Rightarrow> string \<Rightarrow> hook_state \<Rightarrow> Note option result"
where
  "updateNote g usr i t c s =
     (case usr of
        None \<Rightarrow> \<lparr>returned = None, after = s, calls = [], toasts = []\<rparr>
      | Some u \<Rightarrow>
          (case update_note g i (TitleContentPatch t c (now g)) of
             Thrown \<Rightarrow>
               \<lparr>returned = None, after = s, calls = [Update i (TitleContentPatch t c (now g))],
                toasts = [ToastError ''Failed to update note'']\<rparr>
           | StoreError e \<Rightarrow>
               \<lparr>returned = None, after = s, calls = [Update i (TitleContentPatch t c (now g))],
                toasts = [ToastError ''Failed to update note'']\<rparr>
           | StoreData d \<Rightarrow>
               \<lparr>returned = Some d, after = s\<lparr>notes := replace_by_id i d (notes s)\<rparr>,
                calls = [Update i (TitleContentPatch t c (now g))],
                toasts = [ToastSuccess ''Note updated successfully!'']\<rparr>))"

definition deleteNote :: "gateways \<Rightarrow> user option \<Rightarrow> string \<Rightarrow> hook_state \<Rightarrow> bool result" where
  "deleteNote g usr i s =
     (case usr of
        None \<Rightarrow> \<lparr>returned = False, after = s, calls = [], toasts = []\<rparr>
      | Some u \<Rightarrow>
          (case delete_note g i of
             Thrown \<Rightarrow>
               \<lparr>returned = False, after = s, calls = [Delete i],
                toasts = [ToastError ''Failed to delete note'']\<rparr>
           | StoreError e \<Rightarrow>
               \<lparr>returned = False, after = s, calls = [Delete i],
                toasts = [ToastError ''Failed to delete note'']\<rparr>
           | StoreData d \<Rightarrow>
               \<lparr>returned = True, after = s\<lparr>notes := remove_by_id i (notes s)\<rparr>,
                calls = [Delete i],
                toasts = [ToastSuccess ''Note deleted successfully!'']\<rparr>))"

text \<open>
  \<^verbatim>\<open>summarizeNote\<close> returns \<^verbatim>\<open>null\<close> or the summary read from the function's data; \<open>None\<close>
  stands for \<^verbatim>\<open>null\<close> and for an absent \<^verbatim>\<open>summary\<close> field.
\<close>

definition summarizeNote ::
  "gateways \<Rightarrow> user option \<Rightarrow> string \<Rightarrow> hook_state \<Rightarrow> string option result"
where
  "summarizeNote g usr noteId s =
     (case find (\<lambda>n. note_id n = noteId) (notes s) of
        None \<Rightarrow> \<lparr>returned = None, after = s, calls = [], toasts = []\<rparr>
      | Some n \<Rightarrow>
          (case usr of
             None \<Rightarrow> \<lparr>returned = None, after = s, calls = [], toasts = []\<rparr>
           | Some u \<Rightarrow>
               (case invoke g ''summarize-note'' (ContentBody (content n)) of
                  Thrown \<Rightarrow>
                    \<lparr>returned = None, after = s,
                     calls = [Invoke ''summarize-note'' (ContentBody (content n))],
                     toasts = [ToastError ''Failed to summarize note'']\<rparr>
                | StoreError e \<Rightarrow>
                    \<lparr>returned = None, after = s,
                     calls = [Invoke ''summarize-note'' (ContentBody (content n))],
                     toasts = [ToastError ''Failed to summarize note'']\<rparr>
                | StoreData NullData \<Rightarrow>
                    \<lparr>returned = None, after = s,
                     calls = [Invoke ''summarize-note'' (ContentBody (content n))],
                     toasts = [ToastError ''Failed to summarize note'']\<rparr>
                | StoreData (Data sm) \<Rightarrow>
                    (case update_note g noteId (SummaryPatch sm (now g)) of
                       Thrown \<Rightarrow>
                         \<lparr>returned = None, after = s,
                          calls = [Invoke ''summarize-note'' (ContentBody (content n)),
                                   Update noteId (SummaryPatch sm (now g))],
                          toasts = [ToastError ''Failed to summarize note'']\<rparr>
                     | StoreError e \<Rightarrow>
                         \<lparr>returned = None, after = s,
                          calls = [Invoke ''summarize-note'' (ContentBody (content n)),
                                   Update noteId (SummaryPatch sm (now g))],
                          toasts = [ToastError ''Failed to save summary'']\<rparr>
                     | StoreData updatedNote \<Rightarrow>
                         \<lparr>returned = sm,
                          after = s\<lparr>notes := replace_by_id noteId updatedNote (notes s)\<rparr>,
                          calls = [Invoke ''summarize-note'' (ContentBody (content n)),
                                   Update noteId (SummaryPatch sm (now g))],
                          toasts = [ToastSuccess ''Note summarized successfully!'']\<rparr>))))"

text \<open>
  \<^verbatim>\<open>summarizeAllNotes\<close> shows its success toast before it reads \<^verbatim>\<open>data.summary\<close>, so
  \<^verbatim>\<open>null\<close> data gives both toasts.
\<close>

definition summarizeAllNotes :: "gateways \<Rightarrow> user option \<Rightarrow> hook_state \<Rightarrow> string option result" where
  "summarizeAllNotes g usr s =
     (if usr = None \<or> length (notes s) = 0 then
        \<lparr>returned = None, after = s, calls = [], toasts = []\<rparr>
      else
        (case invoke g ''summarize-notes'' (NotesBody (map (\<lambda>n. (title n, content n)) (notes s))) of
           Thrown \<Rightarrow>
             \<lparr>returned = None, after = s,
              calls = [Invoke ''summarize-notes'' (NotesBody (map (\<lambda>n. (title n, content n)) (notes s)))],
              toasts = [ToastError ''Failed to summarize all notes'']\<rparr>
         | StoreError e \<Rightarrow>
             \<lparr>returned = None, after = s,
              calls = [Invoke ''summarize-notes'' (NotesBody (map (\<lambda>n. (title n, content n)) (notes s)))],
              toasts = [ToastError ''Failed to summarize all notes'']\<rparr>
         | StoreData NullData \<Rightarrow>
             \<lparr>returned = None, after = s,
              calls = [Invoke ''summarize-notes'' (NotesBody (map (\<lambda>n. (title n, content n)) (notes s)))],
              toasts = [ToastSuccess ''All notes summarized successfully!'',
                        ToastError ''Failed to summarize all notes'']\<rparr>
         | StoreData (Data sm) \<Rightarrow>
             \<lparr>returned = sm, after = s,
              calls = [Invoke ''summarize-notes'' (NotesBody (map (\<lambda>n. (title n, content n)) (notes s)))],
              toasts = [ToastSuccess ''All notes summarized successfully!'']\<rparr>))"

section \<open>Outcomes of the remote calls\<close>

text \<open>
  The message of the exception that the body of the batch loop raises at the result of
  an item's request, if it raises one: the fetch rejected; or the status is a success
  and the body does not parse, or the path \<^verbatim>\<open>data.choices[0].message.content\<close> raises a
  TypeError (one of \<^verbatim>\<open>data\<close>, \<^verbatim>\<open>data.choices\<close>, \<^verbatim>\<open>data.choices[0]\<close> and the \<^verbatim>\<open>message\<close> is
  \<^verbatim>\<open>null\<close> or absent). A status that is not a success raises nothing, and neither does
  a message without a \<^verbatim>\<open>content\<close>.
\<close>

fun raised :: "(bool \<Rightarrow> string \<Rightarrow> string) \<Rightarrow> fetch_result \<Rightarrow> string option" where
  "raised te (FetchRejected m) = Some m"
| "raised te (FetchResponse ok st b) =
     (if ok then
        (case b of
           Unparseable m \<Rightarrow> Some m
         | Parsed data \<Rightarrow> (case completion_content te data of Inl m \<Rightarrow> Some m | Inr v \<Rightarrow> None))
      else None)"

text \<open>A per-item request is answered when the loop folds its result into a line.\<close>

definition answered :: "(bool \<Rightarrow> string \<Rightarrow> string) \<Rightarrow> fetch_result \<Rightarrow> bool" where
  "answered te r = (raised te r = None)"

text \<open>A store or function call failed: it rejected, or it resolved with an error.\<close>

fun failed :: "'a store_result \<Rightarrow> bool" where
  "failed Thrown = True"
| "failed (StoreError e) = True"
| "failed (StoreData d) = False"

section \<open>The combined text as the specification words it\<close>

text \<open>
  The specification's \<open>summaryOrFallback\<close>: the summary of an item whose request
  succeeded, which is the text of the content read from the response, and the fixed
  fallback text of any other item.
\<close>

fun summaryOrFallback :: "(bool \<Rightarrow> string \<Rightarrow> string) \<Rightarrow> fetch_result \<Rightarrow> string" where
  "summaryOrFallback te (FetchResponse True st (Parsed data)) =
     (case completion_content te data of Inl m \<Rightarrow> fallback | Inr v \<Rightarrow> to_text v)"
| "summaryOrFallback te r = fallback"


section \<open>Example inputs\<close>

text \<open>
  Three items of which the second one's request fails: with a status that is not a
  success, or by a rejected fetch.
\<close>

definition abc_notes :: "(string \<times> string) list" where
  "abc_notes = [(''A'', ''alpha''), (''B'', ''beta''), (''C'', ''gamma'')]"

definition abc_request :: "notes_field http_request" where
  "abc_request = \<lparr>method = ''POST'', json = JsonValue (NotesList abc_notes)\<rparr>"

definition empty_request :: "notes_field http_request" where
  "empty_request = \<lparr>method = ''POST'', json = JsonValue (NotesList [])\<rparr>"

text \<open>The answer \<^verbatim>\<open>{"choices":[{"message":{"role":"assistant","content":s}}]}\<close>.\<close>

definition completion :: "string \<Rightarrow> json" where
  "completion s =
     JObject [(''choices'',
       JArray [JObject [(''message'',
         JObject [(''role'', JString ''assistant''), (''content'', JString s)])]])]"


text \<open>The wording of V8 for the TypeError of a property read.\<close>

definition v8_type_error :: "bool \<Rightarrow> string \<Rightarrow> string" where
  "v8_type_error n p =
     ''Cannot read properties of '' @ (if n then ''null'' else ''undefined'')
       @ '' (reading '' @ [CHR 0x27] @ p @ [CHR 0x27] @ '')''"

definition b_status_env :: deno_env where
  "b_status_env =
     \<lparr>nvidiApiKey = Some ''key'',
      fetch = (\<lambda>i r. if i = 1 then FetchResponse False ''Bad Gateway'' (Unparseable ''Unexpected token'')
                     else FetchResponse True ''OK'' (Parsed (completion ''short''))),
      type_error = v8_type_error\<rparr>"

definition b_timeout_env :: deno_env where
  "b_timeout_env =
     \<lparr>nvidiApiKey = Some ''key'',
      fetch = (\<lambda>i r. if i = 1 then FetchRejected ''timed out''
                     else FetchResponse True ''OK'' (Parsed (completion ''short''))),
      type_error = v8_type_error\<rparr>"




definition single_request_example :: "string http_request" where
  "single_request_example = \<lparr>method = ''POST'', json = JsonValue ''first body''\<rparr>"

definition note1 :: Note where
  "note1 = \<lparr>note_id = ''n1'', title = ''First'', content = ''first body'', summary = None,
            file_name = None, created_at = ''2024-01-02'', updated_at = ''2024-01-02'',
            user_id = ''u1''\<rparr>"

definition note2 :: Note where
  "note2 = \<lparr>note_id = ''n2'', title = ''Second'', content = ''second body'', summary = Some ''old'',
            file_name = Some ''second.txt'', created_at = ''2024-01-01'', updated_at = ''2024-01-01'',
            user_id = ''u1''\<rparr>"

definition two_notes :: hook_state where
  "two_notes = \<lparr>notes = [note1, note2], loading = False\<rparr>"

text \<open>A store that refuses every write and read, beside functions that work.\<close>

definition failing_store :: gateways where
  "failing_store =
     \<lparr>select_notes = StoreError ''permission denied'',
      insert_note = (\<lambda>t c f u. StoreError ''permission denied''),
      update_note = (\<lambda>i p. case p of TitleContentPatch t c d \<Rightarrow> Thrown
                                   | SummaryPatch sm d \<Rightarrow> StoreError ''permission denied''),
      delete_note = (\<lambda>i. StoreError ''permission denied''),
      invoke = (\<lambda>f b. StoreData (Data (Some ''a summary''))),
      now = ''2024-02-01''\<rparr>"

text \<open>A store that accepts every call; an update answers with the second note renamed.\<close>

definition working_store :: gateways where
  "working_store =
     \<lparr>select_notes = StoreData (Some [note2]),
      insert_note = (\<lambda>t c f u. StoreData note1),
      update_note = (\<lambda>i p. StoreData (note2\<lparr>title := ''Renamed'', updated_at := ''2024-02-01''\<rparr>)),
      delete_note = (\<lambda>i. StoreData ()),
      invoke = (\<lambda>f b. StoreData (Data (Some ''a summary''))),
      now = ''2024-02-01''\<rparr>"

section \<open>The batch loop\<close>





text \<open>One turn of the loop at an item that is answered, and at one that is not.\<close>

lemma loop_step_answered:
  assumes "answered (type_error env) (fetch env i (batch_request key n))"
  shows "summarize_loop env key i (n # ns) acc sent =
     summarize_loop env key (Suc i) ns
       (acc @ [bullet_line (fst n)
          (summaryOrFallback (type_error env) (fetch env i (batch_request key n)))])
       (sent @ [batch_request key n])"
proof (cases "fetch env i (batch_request key n)")
  case (FetchRejected m)
  with assms show ?thesis by (simp add: answered_def)
next
  case (FetchResponse ok st b)
  show ?thesis
  proof (cases ok)
    case False
    with FetchResponse show ?thesis by simp
  next
    case True
    with FetchResponse assms obtain data v where "b = Parsed data"
      and "completion_content (type_error env) data = Inr v"
      by (cases b) (auto simp: answered_def split: sum.splits)
    with FetchResponse True show ?thesis by simp
  qed
qed

lemma loop_step_raised:
  assumes "raised (type_error env) (fetch env i (batch_request key n)) = Some m"
  shows "summarize_loop env key i (n # ns) acc sent = (Inl m, sent @ [batch_request key n])"
proof (cases "fetch env i (batch_request key n)")
  case (FetchRejected m')
  with assms show ?thesis by simp
next
  case (FetchResponse ok st b)
  with assms show ?thesis
    by (cases b) (auto split: if_splits sum.splits)
qed




lemma loop_sent:
  "set (snd (summarize_loop env key i ns acc sent)) \<subseteq> set sent \<union> batch_request key ` set ns"
proof (induction ns arbitrary: i acc sent)
  case Nil
  show ?case by simp
next
  case (Cons n ns)
  show ?case
  proof (cases "raised (type_error env) (fetch env i (batch_request key n))")
    case (Some m)
    from loop_step_raised[OF this] show ?thesis by auto
  next
    case None
    then have "answered (type_error env) (fetch env i (batch_request key n))"
      by (simp add: answered_def)
    from loop_step_answered[OF this] Cons.IH show ?thesis
      by fastforce
  qed
qed

lemma snd_summarize_notes:
  "snd (summarize_notes env req) =
     (if method req = ''OPTIONS'' then []
      else
        (case json req of
           JsonRejected m \<Rightarrow> []
         | JsonValue v \<Rightarrow>
             (case configured_key (nvidiApiKey env) of
                None \<Rightarrow> []
              | Some key \<Rightarrow>
                  (case v of
                     NotIterable m \<Rightarrow> []
                   | NotesList ns \<Rightarrow> snd (summarize_loop env key 0 ns [] [])))))"
  by (simp add: summarize_notes_def split: json_result.split option.split notes_field.split
      prod.split sum.split)

lemma notes_sent:
  assumes "r \<in> set (snd (summarize_notes env req))"
  shows "\<exists>key n. r = batch_request key n"
proof -
  from assms obtain key ns where "r \<in> set (snd (summarize_loop env key 0 ns [] []))"
    unfolding snd_summarize_notes
    by (simp split: if_splits json_result.splits option.splits notes_field.splits) blast
  with loop_sent[of env key 0 ns "[]" "[]"] have "r \<in> batch_request key ` set ns"
    by auto
  then show ?thesis by blast
qed

lemma note_sent:
  "set (snd (summarize_note env req)) \<subseteq> {r. \<exists>key c. r = single_request key c}"
  by (auto simp: summarize_note_def split: json_result.splits option.splits fetch_result.splits
      completion_body.splits sum.splits)





section \<open>Properties of the summarization functions\<close>







text \<open>
  C8. Every request that the batch handler sends has temperature 0.2, top_p 0.7 and
  max_tokens 100; every request that the single-note handler sends has temperature 0.2,
  top_p 0.7 and max_tokens 200; the two modes agree on temperature and top_p, and the
  single-note budget is strictly the larger one.
\<close>

theorem generation_parameters:
  "(\<forall>r \<in> set (snd (summarize_notes env req)).
      temperature r = 0.2 \<and> top_p r = 0.7 \<and> max_tokens r = 100)
   \<and> (\<forall>r \<in> set (snd (summarize_note env' req')).
      temperature r = 0.2 \<and> top_p r = 0.7 \<and> max_tokens r = 200)
   \<and> temperature (batch_request key n) = temperature (single_request key' c)
   \<and> top_p (batch_request key n) = top_p (single_request key' c)
   \<and> max_tokens (batch_request key n) < max_tokens (single_request key' c)"
proof (intro conjI ballI)
  fix r assume "r \<in> set (snd (summarize_notes env req))"
  from notes_sent[OF this] obtain k m where r: "r = batch_request k m" by auto
  show "temperature r = 0.2" "top_p r = 0.7" "max_tokens r = 100"
    by (simp_all add: r batch_request_def)
next
  fix r assume "r \<in> set (snd (summarize_note env' req'))"
  with note_sent[of env' req'] obtain k m where r: "r = single_request k m" by auto
  show "temperature r = 0.2" "top_p r = 0.7" "max_tokens r = 200"
    by (simp_all add: r single_request_def)
qed (simp_all add: batch_request_def single_request_def)

theorem generation_parameters_witness:
  "batch_request ''key'' (''A'', ''alpha'') \<in> set (snd (summarize_notes b_status_env abc_request))
   \<and> max_tokens (batch_request ''key'' (''A'', ''alpha'')) = 100
   \<and> temperature (batch_request ''key'' (''A'', ''alpha'')) = 1 / 5
   \<and> top_p (batch_request ''key'' (''A'', ''alpha'')) = 7 / 10
   \<and> single_request ''key'' ''first body'' \<in> set (snd (summarize_note b_status_env single_request_example))
   \<and> max_tokens (single_request ''key'' ''first body'') = 200
   \<and> temperature (single_request ''key'' ''first body'') = 1 / 5
   \<and> top_p (single_request ''key'' ''first body'') = 7 / 10"
proof -
  have a: "batch_request ''key'' (''A'', ''alpha'') \<in> set (snd (summarize_notes b_status_env abc_request))"
    by (simp add: summarize_notes_def b_status_env_def abc_request_def abc_notes_def
        completion_def completion_content_def own_property_def)
  have b: "single_request ''key'' ''first body''
      \<in> set (snd (summarize_note b_status_env single_request_example))"
    by (simp add: summarize_note_def b_status_env_def single_request_example_def
        completion_def completion_content_def own_property_def)
  from generation_parameters[of b_status_env abc_request b_status_env single_request_example] a b
  show ?thesis by auto
qed

text \<open>
  C10. With a configured key, a request that is not a preflight and whose list of notes is
  empty sends nothing to the completion endpoint and is answered with status 200 and
  the empty summary.
\<close>

theorem empty_batch:
  assumes "method req \<noteq> ''OPTIONS''" and "json req = JsonValue (NotesList [])"
    and "configured_key (nvidiApiKey env) = Some key"
  shows "summarize_notes env req = (\<lparr>status = 200, body = SummaryJson ''''\<rparr>, [])"
  using assms by (simp add: summarize_notes_def summary_response_def)

theorem empty_batch_witness:
  "summarize_notes b_timeout_env empty_request = (\<lparr>status = 200, body = SummaryJson ''''\<rparr>, [])"
proof -
  have m: "method empty_request \<noteq> ''OPTIONS''"
    by (simp add: empty_request_def)
  have j: "json empty_request = JsonValue (NotesList [])"
    by (simp add: empty_request_def)
  have k: "configured_key (nvidiApiKey b_timeout_env) = Some ''key''"
    by (simp add: b_timeout_env_def)
  from empty_batch[OF m j k] show ?thesis .
qed

section \<open>Properties of the note collection\<close>

text \<open>
  C2. When \<^verbatim>\<open>summarizeNote\<close> finds the note, the function answers with a summary and the
  store update that would persist it fails (it rejects or resolves with an error), the
  operation returns \<^verbatim>\<open>null\<close> and the state of the hook, with every note's summary field,
  is what it was; the two calls made are the function call and the update.
\<close>

theorem summarize_persistence_gate:
  assumes "find (\<lambda>n. note_id n = noteId) (notes s) = Some n"
    and "invoke g ''summarize-note'' (ContentBody (content n)) = StoreData (Data sm)"
    and "failed (update_note g noteId (SummaryPatch sm (now g)))"
  shows "returned (summarizeNote g (Some u) noteId s) = None
       \<and> after (summarizeNote g (Some u) noteId s) = s
       \<and> calls (summarizeNote g (Some u) noteId s) =
           [Invoke ''summarize-note'' (ContentBody (content n)),
            Update noteId (SummaryPatch sm (now g))]"
  using assms
  by (cases "update_note g noteId (SummaryPatch sm (now g))") (simp_all add: summarizeNote_def)

theorem summarize_persistence_gate_witness:
  "returned (summarizeNote failing_store (Some (User ''u1'')) ''n2'' two_notes) = None
   \<and> after (summarizeNote failing_store (Some (User ''u1'')) ''n2'' two_notes) = two_notes
   \<and> map summary (notes (after (summarizeNote failing_store (Some (User ''u1'')) ''n2'' two_notes)))
       = [None, Some ''old'']"
proof -
  have f: "find (\<lambda>n. note_id n = ''n2'') (notes two_notes) = Some note2"
    by (simp add: two_notes_def note1_def note2_def)
  have i: "invoke failing_store ''summarize-note'' (ContentBody (content note2))
      = StoreData (Data (Some ''a summary''))"
    by (simp add: failing_store_def)
  have u: "failed (update_note failing_store ''n2'' (SummaryPatch (Some ''a summary'') (now failing_store)))"
    by (simp add: failing_store_def)
  from summarize_persistence_gate[OF f i u, of "User ''u1''"] show ?thesis
    by (simp add: two_notes_def note1_def note2_def)
qed

text \<open>
  C4. For every state and every failure of the store (a rejected call or an error
  result): a failed create, a failed delete and a failed update each leave the state
  of the hook as it was, and return \<^verbatim>\<open>null\<close>, \<^verbatim>\<open>false\<close> and \<^verbatim>\<open>null\<close>.
\<close>

theorem no_optimistic_leakage:
  "(failed (insert_note g t c fileName (uid u)) \<longrightarrow>
      after (createNote g (Some u) t c fileName s) = s
      \<and> returned (createNote g (Some u) t c fileName s) = None)
   \<and> (failed (delete_note g i) \<longrightarrow>
      after (deleteNote g (Some u) i s) = s \<and> returned (deleteNote g (Some u) i s) = False)
   \<and> (failed (update_note g i (TitleContentPatch t c (now g))) \<longrightarrow>
      after (updateNote g (Some u) i t c s) = s \<and> returned (updateNote g (Some u) i t c s) = None)"
proof (intro conjI impI)
  assume "failed (insert_note g t c fileName (uid u))"
  then show "after (createNote g (Some u) t c fileName s) = s"
    by (cases "insert_note g t c fileName (uid u)") (simp_all add: createNote_def)
next
  assume "failed (insert_note g t c fileName (uid u))"
  then show "returned (createNote g (Some u) t c fileName s) = None"
    by (cases "insert_note g t c fileName (uid u)") (simp_all add: createNote_def)
next
  assume "failed (delete_note g i)"
  then show "after (deleteNote g (Some u) i s) = s"
    by (cases "delete_note g i") (simp_all add: deleteNote_def)
next
  assume "failed (delete_note g i)"
  then show "returned (deleteNote g (Some u) i s) = False"
    by (cases "delete_note g i") (simp_all add: deleteNote_def)
next
  assume "failed (update_note g i (TitleContentPatch t c (now g)))"
  then show "after (updateNote g (Some u) i t c s) = s"
    by (cases "update_note g i (TitleContentPatch t c (now g))") (simp_all add: updateNote_def)
next
  assume "failed (update_note g i (TitleContentPatch t c (now g)))"
  then show "returned (updateNote g (Some u) i t c s) = None"
    by (cases "update_note g i (TitleContentPatch t c (now g))") (simp_all add: updateNote_def)
qed

theorem no_optimistic_leakage_witness:
  "after (createNote failing_store (Some (User ''u1'')) ''Third'' ''third body'' None two_notes) = two_notes
   \<and> after (deleteNote failing_store (Some (User ''u1'')) ''n1'' two_notes) = two_notes
   \<and> after (updateNote failing_store (Some (User ''u1'')) ''n1'' ''Third'' ''third body'' two_notes) = two_notes"
proof -
  have a: "failed (insert_note failing_store ''Third'' ''third body'' None (uid (User ''u1'')))"
    by (simp add: failing_store_def)
  have b: "failed (delete_note failing_store ''n1'')"
    by (simp add: failing_store_def)
  have c: "failed (update_note failing_store ''n1''
      (TitleContentPatch ''Third'' ''third body'' (now failing_store)))"
    by (simp add: failing_store_def)
  from no_optimistic_leakage[of failing_store "''Third''" "''third body''" None "User ''u1''"
      two_notes "''n1''"] a b c
  show ?thesis by simp
qed

text \<open>
  C5. Without a user, \<^verbatim>\<open>createNote\<close>, \<^verbatim>\<open>updateNote\<close>, \<^verbatim>\<open>deleteNote\<close>, \<^verbatim>\<open>summarizeNote\<close>
  and \<^verbatim>\<open>summarizeAllNotes\<close> make no gateway call, show no toast, leave the state as it
  was and return \<^verbatim>\<open>null\<close> (\<^verbatim>\<open>false\<close> for the delete).
\<close>

theorem no_session_no_op:
  "createNote g None t c fileName s = \<lparr>returned = None, after = s, calls = [], toasts = []\<rparr>
   \<and> updateNote g None i t c s = \<lparr>returned = None, after = s, calls = [], toasts = []\<rparr>
   \<and> deleteNote g None i s = \<lparr>returned = False, after = s, calls = [], toasts = []\<rparr>
   \<and> summarizeNote g None i s = \<lparr>returned = None, after = s, calls = [], toasts = []\<rparr>
   \<and> summarizeAllNotes g None s = \<lparr>returned = None, after = s, calls = [], toasts = []\<rparr>"
  by (simp add: createNote_def updateNote_def deleteNote_def summarizeNote_def
      summarizeAllNotes_def split: option.split)

text \<open>
  C6. A successful update keeps the length of the collection and puts the stored note at
  every position whose entry has the id, all other positions keeping their entry; a
  successful delete leaves the entries whose id differs, in their order. A failed update
  and a failed delete leave the state as it was.
\<close>

theorem update_delete_by_id:
  "(update_note g i (TitleContentPatch t c (now g)) = StoreData d \<longrightarrow>
      length (notes (after (updateNote g (Some u) i t c s))) = length (notes s)
      \<and> (\<forall>k < length (notes s).
            notes (after (updateNote g (Some u) i t c s)) ! k =
              (if note_id (notes s ! k) = i then d else notes s ! k))
      \<and> loading (after (updateNote g (Some u) i t c s)) = loading s)
   \<and> (delete_note g i = StoreData x \<longrightarrow>
      notes (after (deleteNote g (Some u) i s)) = filter (\<lambda>n. note_id n \<noteq> i) (notes s)
      \<and> subseq (notes (after (deleteNote g (Some u) i s))) (notes s)
      \<and> loading (after (deleteNote g (Some u) i s)) = loading s)
   \<and> (failed (update_note g i (TitleContentPatch t c (now g))) \<longrightarrow>
      after (updateNote g (Some u) i t c s) = s)
   \<and> (failed (delete_note g i) \<longrightarrow> after (deleteNote g (Some u) i s) = s)"
proof (intro conjI impI)
  assume "failed (update_note g i (TitleContentPatch t c (now g)))"
  then show "after (updateNote g (Some u) i t c s) = s"
    by (cases "update_note g i (TitleContentPatch t c (now g))") (simp_all add: updateNote_def)
next
  assume "failed (delete_note g i)"
  then show "after (deleteNote g (Some u) i s) = s"
    by (cases "delete_note g i") (simp_all add: deleteNote_def)
qed (simp_all add: updateNote_def deleteNote_def replace_by_id_def remove_by_id_def)

theorem update_delete_by_id_witness:
  "notes (after (updateNote working_store (Some (User ''u1'')) ''n2'' ''Renamed'' ''second body'' two_notes))
     = [note1, note2\<lparr>title := ''Renamed'', updated_at := ''2024-02-01''\<rparr>]
   \<and> notes (after (deleteNote working_store (Some (User ''u1'')) ''n1'' two_notes)) = [note2]
   \<and> after (updateNote failing_store (Some (User ''u1'')) ''n2'' ''Renamed'' ''second body'' two_notes)
     = two_notes
   \<and> after (deleteNote failing_store (Some (User ''u1'')) ''n1'' two_notes) = two_notes"
proof -
  let ?d = "note2\<lparr>title := ''Renamed'', updated_at := ''2024-02-01''\<rparr>"
  have a: "update_note working_store ''n2''
      (TitleContentPatch ''Renamed'' ''second body'' (now working_store)) = StoreData ?d"
    by (simp add: working_store_def)
  have b: "delete_note working_store ''n1'' = StoreData ()"
    by (simp add: working_store_def)
  have c: "failed (update_note failing_store ''n2''
      (TitleContentPatch ''Renamed'' ''second body'' (now failing_store)))"
    by (simp add: failing_store_def)
  have d: "failed (delete_note failing_store ''n1'')"
    by (simp add: failing_store_def)
  have n: "notes two_notes = [note1, note2]" "note_id note1 = ''n1''" "note_id note2 = ''n2''"
    by (simp_all add: two_notes_def note1_def note2_def)
  from update_delete_by_id[of working_store "''n2''" "''Renamed''" "''second body''" ?d
      "User ''u1''" two_notes "()"] a
  have len: "length (notes (after (updateNote working_store (Some (User ''u1'')) ''n2'' ''Renamed''
        ''second body'' two_notes))) = 2"
    and nth: "\<forall>k < 2. notes (after (updateNote working_store (Some (User ''u1'')) ''n2'' ''Renamed''
        ''second body'' two_notes)) ! k = (if note_id ([note1, note2] ! k) = ''n2'' then ?d else [note1, note2] ! k)"
    by (simp_all add: n)
  from nth have "notes (after (updateNote working_store (Some (User ''u1'')) ''n2'' ''Renamed''
        ''second body'' two_notes)) ! 0 = note1"
    "notes (after (updateNote working_store (Some (User ''u1'')) ''n2'' ''Renamed''
        ''second body'' two_notes)) ! 1 = ?d"
    by (simp_all add: n)
  with len have u: "notes (after (updateNote working_store (Some (User ''u1'')) ''n2'' ''Renamed''
        ''second body'' two_notes)) = [note1, ?d]"
    by (auto simp: list_eq_iff_nth_eq less_Suc_eq numeral_2_eq_2)
  from update_delete_by_id[of working_store "''n1''" "''Renamed''" "''second body''" ?d
      "User ''u1''" two_notes "()"] b
  have dl: "notes (after (deleteNote working_store (Some (User ''u1'')) ''n1'' two_notes)) = [note2]"
    by (simp add: n)
  from update_delete_by_id[of failing_store "''n2''" "''Renamed''" "''second body''" ?d
      "User ''u1''" two_notes "()"] c
  have fu: "after (updateNote failing_store (Some (User ''u1'')) ''n2'' ''Renamed'' ''second body'' two_notes)
     = two_notes"
    by blast
  from update_delete_by_id[of failing_store "''n1''" "''Renamed''" "''second body''" ?d
      "User ''u1''" two_notes "()"] d
  have fd: "after (deleteNote failing_store (Some (User ''u1'')) ''n1'' two_notes) = two_notes"
    by blast
  from u dl fu fd show ?thesis by simp
qed

text \<open>
  C7. \<^verbatim>\<open>summarizeAllNotes\<close> never changes the state. Without a user or with an empty
  collection it returns \<^verbatim>\<open>null\<close> and makes no call. Otherwise its only call invokes
  \<^verbatim>\<open>summarize-notes\<close> with the title and content of every note in the order of the
  collection (no call to the store), and it returns the summary of the function's data,
  or \<^verbatim>\<open>null\<close> when the call failed.
\<close>

theorem summarizeAllNotes_frame:
  "after (summarizeAllNotes g usr s) = s
   \<and> (usr = None \<or> notes s = [] \<longrightarrow>
        summarizeAllNotes g usr s = \<lparr>returned = None, after = s, calls = [], toasts = []\<rparr>)
   \<and> (usr \<noteq> None \<and> notes s \<noteq> [] \<longrightarrow>
        calls (summarizeAllNotes g usr s) =
          [Invoke ''summarize-notes'' (NotesBody (map (\<lambda>n. (title n, content n)) (notes s)))]
        \<and> (\<forall>sm. invoke g ''summarize-notes'' (NotesBody (map (\<lambda>n. (title n, content n)) (notes s)))
                  = StoreData (Data sm) \<longrightarrow>
              returned (summarizeAllNotes g usr s) = sm)
        \<and> (failed (invoke g ''summarize-notes'' (NotesBody (map (\<lambda>n. (title n, content n)) (notes s))))
              \<longrightarrow> returned (summarizeAllNotes g usr s) = None))"
proof (intro conjI impI allI)
  assume "failed (invoke g ''summarize-notes'' (NotesBody (map (\<lambda>n. (title n, content n)) (notes s))))"
    and "usr \<noteq> None \<and> notes s \<noteq> []"
  then show "returned (summarizeAllNotes g usr s) = None"
    by (cases "invoke g ''summarize-notes'' (NotesBody (map (\<lambda>n. (title n, content n)) (notes s)))")
      (simp_all add: summarizeAllNotes_def)
qed (auto simp: summarizeAllNotes_def split: store_result.splits invoke_data.splits)

theorem summarizeAllNotes_frame_witness:
  "summarizeAllNotes working_store (Some (User ''u1'')) initial_state =
     \<lparr>returned = None, after = initial_state, calls = [], toasts = []\<rparr>
   \<and> calls (summarizeAllNotes working_store (Some (User ''u1'')) two_notes) =
       [Invoke ''summarize-notes'' (NotesBody [(''First'', ''first body''), (''Second'', ''second body'')])]
   \<and> returned (summarizeAllNotes working_store (Some (User ''u1'')) two_notes) = Some ''a summary''
   \<and> after (summarizeAllNotes working_store (Some (User ''u1'')) two_notes) = two_notes"
proof -
  have e: "notes initial_state = []"
    by (simp add: initial_state_def)
  have n: "notes two_notes \<noteq> []" "Some (User ''u1'') \<noteq> None"
    by (simp_all add: two_notes_def)
  have m: "map (\<lambda>n. (title n, content n)) (notes two_notes) =
      [(''First'', ''first body''), (''Second'', ''second body'')]"
    by (simp add: two_notes_def note1_def note2_def)
  have i: "invoke working_store ''summarize-notes''
      (NotesBody (map (\<lambda>n. (title n, content n)) (notes two_notes))) = StoreData (Data (Some ''a summary''))"
    by (simp add: working_store_def)
  from summarizeAllNotes_frame[of working_store "Some (User ''u1'')" initial_state] e
  have a: "summarizeAllNotes working_store (Some (User ''u1'')) initial_state =
     \<lparr>returned = None, after = initial_state, calls = [], toasts = []\<rparr>"
    by blast
  from summarizeAllNotes_frame[of working_store "Some (User ''u1'')" two_notes] n i
  have b: "calls (summarizeAllNotes working_store (Some (User ''u1'')) two_notes) =
       [Invoke ''summarize-notes'' (NotesBody (map (\<lambda>n. (title n, content n)) (notes two_notes)))]"
    and c: "returned (summarizeAllNotes working_store (Some (User ''u1'')) two_notes) = Some ''a summary''"
    and d: "after (summarizeAllNotes working_store (Some (User ''u1'')) two_notes) = two_notes"
    by blast+
  from a b c d m show ?thesis by simp
qed

text \<open>
  C9. Without a user, \<^verbatim>\<open>fetchNotes\<close> makes no call and leaves the state as it was, the
  loading flag included; with a user it makes the one select call and the loading flag
  is false afterwards, whatever the store answers.
\<close>

theorem fetchNotes_loading_flag:
  "fetchNotes g None s = \<lparr>returned = (), after = s, calls = [], toasts = []\<rparr>
   \<and> loading (after (fetchNotes g None s)) = loading s
   \<and> loading (after (fetchNotes g (Some u) s)) = False
   \<and> calls (fetchNotes g (Some u) s) = [Select]"
  by (simp add: fetchNotes_def split: store_result.split)

end
